theory Spec2Isabelle
  imports Main
begin

section \<open>Strings\<close>

text \<open>
  A Python \<open>str\<close> is a sequence of Unicode code points: slicing and the regular
  expressions of \<open>sanitize_filename\<close> count and test code points, and the replies of
  the bot hold code points far beyond one byte. A string is therefore a list of code
  points, and \<open>py\<close> reads an ASCII literal as one.
\<close>

type_synonym codepoint = nat
type_synonym pystr = "codepoint list"

definition py :: "string \<Rightarrow> pystr" where
  "py s = map of_char s"

text \<open>\<open>str(n)\<close> for an integer, as the f-strings of the handlers apply it.\<close>

fun str_nat :: "nat \<Rightarrow> pystr" where
  "str_nat n = (if n < 10 then [48 + n] else str_nat (n div 10) @ [48 + n mod 10])"

declare str_nat.simps [simp del]

definition str_int :: "int \<Rightarrow> pystr" where
  "str_int i = (if i < 0 then 45 # str_nat (nat (- i)) else str_nat (nat i))"

text \<open>
  \<open>re.sub\<close> for the two shapes of pattern the source uses: a character class, where
  every matching code point is replaced, and a character class under \<open>+\<close>, where every
  maximal run of matching code points is replaced by one copy of the replacement.
\<close>

definition re_sub_class :: "(codepoint \<Rightarrow> bool) \<Rightarrow> pystr \<Rightarrow> pystr \<Rightarrow> pystr" where
  "re_sub_class cls repl s = concat (map (\<lambda>c. if cls c then repl else [c]) s)"

function re_sub_class_plus :: "(codepoint \<Rightarrow> bool) \<Rightarrow> pystr \<Rightarrow> pystr \<Rightarrow> pystr" where
  "re_sub_class_plus cls repl [] = []"
| "re_sub_class_plus cls repl (c # cs) =
     (if cls c then repl @ re_sub_class_plus cls repl (dropWhile cls cs)
      else c # re_sub_class_plus cls repl cs)"
  by pat_completeness auto
termination
  by (relation "measure (\<lambda>(cls, repl, s). length s)")
     (auto intro: le_imp_less_Suc length_dropWhile_le)

section \<open>Utilities\<close>

text \<open>The class \<open>[\\/]\<close>: backslash (92) and slash (47).\<close>

definition path_separator :: "codepoint \<Rightarrow> bool" where
  "path_separator c = (c = 92 \<or> c = 47)"

text \<open>
  The class \<open>[A-Za-z0-9_.\-() ]\<close>: the ASCII letters and digits, underscore (95),
  full stop (46), hyphen (45), the two parentheses (40, 41) and the space (32).
\<close>

definition allowed :: "codepoint \<Rightarrow> bool" where
  "allowed c =
     ((65 \<le> c \<and> c \<le> 90) \<or> (97 \<le> c \<and> c \<le> 122) \<or> (48 \<le> c \<and> c \<le> 57) \<or>
      c = 95 \<or> c = 46 \<or> c = 45 \<or> c = 40 \<or> c = 41 \<or> c = 32)"

definition sanitize_filename :: "pystr \<Rightarrow> pystr" where
  "sanitize_filename name =
     (let name1 = re_sub_class path_separator (py ''_'') name;
          name2 = re_sub_class_plus (\<lambda>c. \<not> allowed c) [] name1
      in take 200 name2)"

text \<open>
  The policy in the words of the specification: separators become underscores, what is
  outside the allow-set is stripped, the result is cut to 200 code points.
\<close>

definition sanitize_policy :: "pystr \<Rightarrow> pystr" where
  "sanitize_policy name =
     take 200 (filter allowed (map (\<lambda>c. if path_separator c then 95 else c) name))"

section \<open>Shared state and the gateway\<close>

datatype error = ReError | IndexError | TypeError | AttributeError | NetworkError

record user =
  user_id :: int
  username :: "pystr option"

record document =
  doc_file_id :: pystr
  file_name :: "pystr option"
  file_size :: "int option"

datatype directory = PHOTOS_DIR | FILES_DIR

text \<open>
  Every call a handler makes on the messaging gateway, in the order it is made. A
  download is recorded with its destination: the directory and the file name joined to
  it. The log calls of the source are left out.
\<close>

datatype call =
    ReplyText pystr "pystr option"
  | ReplyMarkup pystr "(pystr \<times> pystr) list list"
  | Answer
  | EditMessageText pystr
  | GetFile pystr
  | DownloadToDrive directory pystr
  | SendPhoto int pystr pystr
  | SendDocument int pystr pystr

text \<open>
  The module's globals that handlers read or write, and the trace of gateway calls.
  \<open>OWNER_ID\<close> and \<open>KEYWORDS\<close> are set at start-up; \<open>KEYWORDS\<close> keeps the order of
  the dictionary's items.
\<close>

record state =
  OWNER_ID :: "int option"
  AUTO_FORWARD :: bool
  BOT_STATS_photos :: int
  BOT_STATS_documents :: int
  KEYWORDS :: "(pystr \<times> pystr list) list"
  calls :: "call list"

text \<open>
  What lies outside the source and answers one handler run: \<open>str.lower\<close>,
  \<open>re.search\<close> (\<open>None\<close> when the pattern does not compile and \<open>re.error\<close> is
  raised, otherwise whether a match was found), the draw of \<open>random.choice\<close>, the file
  identifier the gateway returns for \<open>get_file\<close> (\<open>None\<close> when the request fails), and
  whether each further gateway call returns or raises.
\<close>

record env =
  str_lower :: "pystr \<Rightarrow> pystr"
  re_search :: "pystr \<Rightarrow> pystr \<Rightarrow> bool option"
  random_draw :: nat
  get_file :: "pystr \<Rightarrow> pystr option"
  download_ok :: bool
  forward_ok :: bool
  reply_ok :: bool
  answer_ok :: bool
  edit_ok :: bool

type_synonym outcome = "error option \<times> state"

definition MAX_FILE_SIZE :: int where
  "MAX_FILE_SIZE = 20 * 1024 * 1024"

text \<open>A gateway call is recorded when it is made; when it raises, the handler stops.\<close>

definition perform :: "bool \<Rightarrow> call \<Rightarrow> state \<Rightarrow> outcome" where
  "perform ok c s = (if ok then None else Some NetworkError, s\<lparr>calls := calls s @ [c]\<rparr>)"

definition and_then :: "outcome \<Rightarrow> (state \<Rightarrow> outcome) \<Rightarrow> outcome" where
  "and_then r f = (case r of (None, s) \<Rightarrow> f s | (Some err, s) \<Rightarrow> (Some err, s))"

definition reply_text :: "env \<Rightarrow> pystr \<Rightarrow> pystr option \<Rightarrow> state \<Rightarrow> outcome" where
  "reply_text e text parse_mode s = perform (reply_ok e) (ReplyText text parse_mode) s"

definition is_admin :: "state \<Rightarrow> int \<Rightarrow> bool" where
  "is_admin s uid = (OWNER_ID s \<noteq> None \<and> Some uid = OWNER_ID s)"

definition admin_only ::
  "(env \<Rightarrow> user \<Rightarrow> state \<Rightarrow> outcome) \<Rightarrow> env \<Rightarrow> user \<Rightarrow> state \<Rightarrow> outcome" where
  "admin_only func e usr s =
     (if \<not> is_admin s (user_id usr)
      then reply_text e (10060 # py '' Admin only command.'') None s
      else func e usr s)"

section \<open>Basic commands\<close>

definition start :: "env \<Rightarrow> user \<Rightarrow> state \<Rightarrow> outcome" where
  "start e usr s =
     reply_text e (9989 # py '' Bot is running!'' @ [10] @
       py ''Type /help to see available commands.'') None s"

definition help_command :: "env \<Rightarrow> user \<Rightarrow> state \<Rightarrow> outcome" where
  "help_command e usr s =
     reply_text e
       (py ''/start - Start bot'' @ [10] @
        py ''/help - Show help'' @ [10] @
        py ''/menu - Open menu'' @ [10] @
        py ''/getmyid - Show your user ID'' @ [10, 10] @
        py ''Admin only:'' @ [10] @
        py ''/toggleforward - Toggle auto-forward'' @ [10] @
        py ''/getstats - Show bot stats'') None s"

definition getmyid :: "env \<Rightarrow> user \<Rightarrow> state \<Rightarrow> outcome" where
  "getmyid e usr s =
     reply_text e (127380 # py '' Your ID: '' @ [96] @ str_int (user_id usr) @ [96])
       (Some (py ''Markdown'')) s"

section \<open>Admin commands\<close>

text \<open>
  The two functions as they are written under the decorator, and the names the module
  binds: the decorator's wrapper around each.
\<close>

definition toggleforward_func :: "env \<Rightarrow> user \<Rightarrow> state \<Rightarrow> outcome" where
  "toggleforward_func e usr s =
     (let s1 = s\<lparr>AUTO_FORWARD := \<not> AUTO_FORWARD s\<rparr>
      in reply_text e
           (py ''Auto-forward '' @
            (if AUTO_FORWARD s1 then 9989 # py '' ON'' else 10060 # py '' OFF'')) None s1)"

definition toggleforward :: "env \<Rightarrow> user \<Rightarrow> state \<Rightarrow> outcome" where
  "toggleforward = admin_only toggleforward_func"

definition getstats_func :: "env \<Rightarrow> user \<Rightarrow> state \<Rightarrow> outcome" where
  "getstats_func e usr s =
     reply_text e
       (128202 # py '' Stats'' @ [10] @
        py ''Photos: '' @ str_int (BOT_STATS_photos s) @ [10] @
        py ''Files: '' @ str_int (BOT_STATS_documents s)) None s"

definition getstats :: "env \<Rightarrow> user \<Rightarrow> state \<Rightarrow> outcome" where
  "getstats = admin_only getstats_func"

section \<open>Menu and callbacks\<close>

definition menu :: "env \<Rightarrow> user \<Rightarrow> state \<Rightarrow> outcome" where
  "menu e usr s =
     (let keyboard = [[(8505 # py '' About'', py ''about'')],
                      [(128222 # py '' Contact'', py ''contact'')]]
      in perform (reply_ok e) (ReplyMarkup (128203 # py '' Menu'') keyboard) s)"

definition handle_buttons :: "env \<Rightarrow> pystr option \<Rightarrow> state \<Rightarrow> outcome" where
  "handle_buttons e data s =
     and_then (perform (answer_ok e) Answer s) (\<lambda>s1.
       if data = Some (py ''about'') then
         perform (edit_ok e)
           (EditMessageText (129302 # py '' Telegram Automation Bot'' @ [10] @
              py ''Developed by Efren'')) s1
       else if data = Some (py ''contact'') then
         perform (edit_ok e) (EditMessageText (128222 # py '' Contact: @your_username'')) s1
       else (None, s1))"

section \<open>File handlers\<close>

text \<open>
  The test \<open>OWNER_ID and AUTO_FORWARD\<close> of both file handlers: the chat to forward to
  when it passes. Python reads \<open>OWNER_ID\<close> for its truth value there, so \<open>None\<close> and
  \<open>0\<close> both fail the test.
\<close>

definition forward_target :: "state \<Rightarrow> int option" where
  "forward_target s =
     (case OWNER_ID s of
        None \<Rightarrow> None
      | Some owner \<Rightarrow> if owner \<noteq> 0 \<and> AUTO_FORWARD s then Some owner else None)"

definition handle_photo :: "env \<Rightarrow> user \<Rightarrow> pystr list \<Rightarrow> state \<Rightarrow> outcome" where
  "handle_photo e usr photos s =
     (case photos of
        [] \<Rightarrow> (Some IndexError, s)
      | _ # _ \<Rightarrow>
          (let photo = last photos in
           case get_file e photo of
             None \<Rightarrow> perform False (GetFile photo) s
           | Some file_id \<Rightarrow>
               and_then (perform True (GetFile photo) s) (\<lambda>s1.
               let filename = sanitize_filename
                     (py ''photo_'' @ str_int (user_id usr) @ py ''_'' @ file_id @ py ''.jpg'')
               in
               and_then (perform (download_ok e) (DownloadToDrive PHOTOS_DIR filename) s1) (\<lambda>s2.
               let s3 = s2\<lparr>BOT_STATS_photos := BOT_STATS_photos s2 + 1\<rparr> in
               and_then
                 (case forward_target s3 of
                    None \<Rightarrow> (None, s3)
                  | Some owner \<Rightarrow>
                      perform (forward_ok e)
                        (SendPhoto owner photo
                           (128248 # py '' Photo from '' @ str_int (user_id usr))) s3) (\<lambda>s4.
               reply_text e (128248 # py '' Saved as '' @ [96] @ filename @ [96])
                 (Some (py ''Markdown'')) s4)))))"

definition handle_document :: "env \<Rightarrow> user \<Rightarrow> document \<Rightarrow> state \<Rightarrow> outcome" where
  "handle_document e usr doc s =
     (case file_size doc of
        None \<Rightarrow> (Some TypeError, s)
      | Some declared \<Rightarrow>
          if declared > MAX_FILE_SIZE then
            reply_text e (9888 # 65039 # py '' File too large.'') None s
          else
            (case get_file e (doc_file_id doc) of
               None \<Rightarrow> perform False (GetFile (doc_file_id doc)) s
             | Some file_id \<Rightarrow>
                 and_then (perform True (GetFile (doc_file_id doc)) s) (\<lambda>s1.
                 let filename = sanitize_filename
                       (str_int (user_id usr) @ py ''_'' @
                        (case file_name doc of None \<Rightarrow> py ''None'' | Some n \<Rightarrow> n))
                 in
                 and_then (perform (download_ok e) (DownloadToDrive FILES_DIR filename) s1) (\<lambda>s2.
                 let s3 = s2\<lparr>BOT_STATS_documents := BOT_STATS_documents s2 + 1\<rparr> in
                 and_then
                   (case forward_target s3 of
                      None \<Rightarrow> (None, s3)
                    | Some owner \<Rightarrow>
                        perform (forward_ok e)
                          (SendDocument owner (doc_file_id doc)
                             (128196 # py '' File from '' @ str_int (user_id usr))) s3) (\<lambda>s4.
                 reply_text e (128196 # py '' Saved '' @ [96] @ filename @ [96])
                   (Some (py ''Markdown'')) s4)))))"

section \<open>Keyword replies\<close>

text \<open>
  \<open>random.choice\<close> raises \<open>IndexError\<close> on an empty sequence and otherwise returns
  the element at an index below the length, here the draw reduced modulo the length.
\<close>

definition random_choice :: "nat \<Rightarrow> 'a list \<Rightarrow> error + 'a" where
  "random_choice draw seq =
     (if seq = [] then Inl IndexError else Inr (seq ! (draw mod length seq)))"

text \<open>The loop over \<open>KEYWORDS.items()\<close>, which returns at the first match.\<close>

fun keyword_loop :: "env \<Rightarrow> pystr \<Rightarrow> (pystr \<times> pystr list) list \<Rightarrow> state \<Rightarrow> outcome" where
  "keyword_loop e text [] s = (None, s)"
| "keyword_loop e text ((pattern, replies) # items) s =
     (case re_search e pattern text of
        None \<Rightarrow> (Some ReError, s)
      | Some False \<Rightarrow> keyword_loop e text items s
      | Some True \<Rightarrow>
          (case random_choice (random_draw e) replies of
             Inl err \<Rightarrow> (Some err, s)
           | Inr reply \<Rightarrow> reply_text e reply None s))"

definition keyword_reply :: "env \<Rightarrow> pystr option \<Rightarrow> state \<Rightarrow> outcome" where
  "keyword_reply e message_text s =
     (let text = str_lower e
            (case message_text of None \<Rightarrow> [] | Some t \<Rightarrow> if t = [] then [] else t)
      in keyword_loop e text (KEYWORDS s) s)"

section \<open>Main message handler\<close>

definition handle_message :: "env \<Rightarrow> pystr option \<Rightarrow> state \<Rightarrow> outcome" where
  "handle_message e message_text s = reply_text e (py ''Got your message!'') None s"

section \<open>Main: the handlers registered with the application\<close>

text \<open>
  An update as the gateway delivers it: a message that starts with a bot command, a
  callback query with its data, a message with photo sizes (their file identifiers), a
  message with a document, or a message with text that is no command.
\<close>

datatype update =
    CommandUpdate pystr user
  | CallbackUpdate "pystr option"
  | PhotoUpdate user "pystr list"
  | DocumentUpdate user document
  | TextUpdate user pystr

datatype update_filter =
    CommandFilter pystr
  | CallbackFilter
  | PhotoFilter
  | DocumentFilter
  | TextNotCommandFilter

datatype callback =
    CB_start | CB_help_command | CB_menu | CB_getmyid | CB_toggleforward | CB_getstats
  | CB_handle_buttons | CB_handle_photo | CB_handle_document | CB_keyword_reply
  | CB_handle_message

text \<open>
  \<open>filters.PHOTO\<close> and \<open>filters.TEXT\<close> pass a message whose photo list, or text, is
  not empty.
\<close>

fun check_update :: "update_filter \<Rightarrow> update \<Rightarrow> bool" where
  "check_update (CommandFilter name) (CommandUpdate cmd usr) = (cmd = name)"
| "check_update CallbackFilter (CallbackUpdate data) = True"
| "check_update PhotoFilter (PhotoUpdate usr photos) = (photos \<noteq> [])"
| "check_update DocumentFilter (DocumentUpdate usr doc) = True"
| "check_update TextNotCommandFilter (TextUpdate usr t) = (t \<noteq> [])"
| "check_update _ _ = False"

text \<open>The calls of \<open>add_handler\<close> in \<open>main\<close>, in their order.\<close>

definition handlers :: "(update_filter \<times> callback) list" where
  "handlers =
     [(CommandFilter (py ''start''), CB_start),
      (CommandFilter (py ''help''), CB_help_command),
      (CommandFilter (py ''menu''), CB_menu),
      (CommandFilter (py ''getmyid''), CB_getmyid),
      (CommandFilter (py ''toggleforward''), CB_toggleforward),
      (CommandFilter (py ''getstats''), CB_getstats),
      (CallbackFilter, CB_handle_buttons),
      (PhotoFilter, CB_handle_photo),
      (DocumentFilter, CB_handle_document),
      (TextNotCommandFilter, CB_keyword_reply)]"

text \<open>
  Running a callback on an update. A callback reads the attributes of the kind of
  update its filter passes; on any other kind the attribute is missing.
\<close>

fun run_callback :: "callback \<Rightarrow> env \<Rightarrow> update \<Rightarrow> state \<Rightarrow> outcome" where
  "run_callback CB_start e (CommandUpdate cmd usr) s = start e usr s"
| "run_callback CB_help_command e (CommandUpdate cmd usr) s = help_command e usr s"
| "run_callback CB_menu e (CommandUpdate cmd usr) s = menu e usr s"
| "run_callback CB_getmyid e (CommandUpdate cmd usr) s = getmyid e usr s"
| "run_callback CB_toggleforward e (CommandUpdate cmd usr) s = toggleforward e usr s"
| "run_callback CB_getstats e (CommandUpdate cmd usr) s = getstats e usr s"
| "run_callback CB_handle_buttons e (CallbackUpdate data) s = handle_buttons e data s"
| "run_callback CB_handle_photo e (PhotoUpdate usr photos) s = handle_photo e usr photos s"
| "run_callback CB_handle_document e (DocumentUpdate usr doc) s = handle_document e usr doc s"
| "run_callback CB_keyword_reply e (TextUpdate usr t) s = keyword_reply e (Some t) s"
| "run_callback CB_handle_message e (TextUpdate usr t) s = handle_message e (Some t) s"
| "run_callback cb e upd s = (Some AttributeError, s)"

text \<open>
  The application hands an update to the first registered handler whose filter passes
  it, and to no handler when none does. An exception of the callback goes to the error
  handler, which logs it; the state the callback left stands.
\<close>

definition process_update :: "env \<Rightarrow> update \<Rightarrow> state \<Rightarrow> outcome" where
  "process_update e upd s =
     (case find (\<lambda>(f, cb). check_update f upd) handlers of
        None \<Rightarrow> (None, s)
      | Some (f, cb) \<Rightarrow> run_callback cb e upd s)"

section \<open>Runs of the toggle, and skipped forwards\<close>

text \<open>
  A run of \<open>toggleforward\<close> commands, each as the module binds it: the decorator's
  wrapper first, so a sender who is not the admin gets the rejection and leaves the flag
  alone. An exception of a reply leaves the state the command reached. A forward is
  skipped between two states when the later trace holds no forward call the earlier one
  lacks.
\<close>

fun toggles :: "(env \<times> user) list \<Rightarrow> state \<Rightarrow> state" where
  "toggles [] s = s"
| "toggles ((e, usr) # rest) s = toggles rest (snd (toggleforward e usr s))"

fun is_forward :: "call \<Rightarrow> bool" where
  "is_forward (SendPhoto chat photo caption) = True"
| "is_forward (SendDocument chat doc caption) = True"
| "is_forward c = False"

definition forward_skipped :: "state \<Rightarrow> state \<Rightarrow> bool" where
  "forward_skipped s s' = (filter is_forward (calls s') = filter is_forward (calls s))"

section \<open>Examples\<close>

text \<open>
  An environment in which lower-casing is that of ASCII, a pattern is searched as a
  plain substring and every gateway call returns; a configuration with admin 42 and a
  table of three patterns; and variations of it.
\<close>

definition ascii_lower :: "pystr \<Rightarrow> pystr" where
  "ascii_lower t = map (\<lambda>c. if 65 \<le> c \<and> c \<le> 90 then c + 32 else c) t"

fun is_prefix :: "pystr \<Rightarrow> pystr \<Rightarrow> bool" where
  "is_prefix [] t = True"
| "is_prefix (p # ps) [] = False"
| "is_prefix (p # ps) (c # cs) = (p = c \<and> is_prefix ps cs)"

fun substring :: "pystr \<Rightarrow> pystr \<Rightarrow> bool" where
  "substring p [] = (p = [])"
| "substring p (c # cs) = (is_prefix p (c # cs) \<or> substring p cs)"

definition example_env :: env where
  "example_env =
     \<lparr>str_lower = ascii_lower, re_search = (\<lambda>p t. Some (substring p t)), random_draw = 5,
      get_file = (\<lambda>f. Some f), download_ok = True, forward_ok = True, reply_ok = True,
      answer_ok = True, edit_ok = True\<rparr>"

definition example_state :: state where
  "example_state =
     \<lparr>OWNER_ID = Some 42, AUTO_FORWARD = True, BOT_STATS_photos = 0,
      BOT_STATS_documents = 0,
      KEYWORDS = [(py ''bye'', [py ''see you'']), (py ''hello'', [py ''hi!'']),
                  (py ''h'', [py ''other''])],
      calls = []\<rparr>"

definition example_user :: user where
  "example_user = \<lparr>user_id = 7, username = Some (py ''seven'')\<rparr>"

definition example_big_document :: document where
  "example_big_document =
     \<lparr>doc_file_id = py ''BQAD'', file_name = Some (py ''report.pdf''),
      file_size = Some (25 * 1024 * 1024)\<rparr>"

definition zero_owner_state :: state where
  "zero_owner_state = example_state\<lparr>OWNER_ID := Some 0\<rparr>"

definition zero_owner_off_state :: state where
  "zero_owner_off_state = example_state\<lparr>OWNER_ID := Some 0, AUTO_FORWARD := False\<rparr>"

definition example_zero_admin :: user where
  "example_zero_admin = \<lparr>user_id = 0, username = None\<rparr>"

definition example_document :: document where
  "example_document =
     \<lparr>doc_file_id = py ''BQAD'', file_name = Some (py ''report.pdf''),
      file_size = Some (1024 * 1024)\<rparr>"

section \<open>Filename sanitization\<close>

lemma filter_dropWhile_not: "filter P (dropWhile (\<lambda>x. \<not> P x) xs) = filter P xs"
  by (induction xs) auto

text \<open>Deleting every maximal run of a class deletes exactly the members of the class.\<close>

lemma re_sub_class_plus_empty: "re_sub_class_plus cls [] s = filter (\<lambda>c. \<not> cls c) s"
proof (induction cls "[] :: pystr" s rule: re_sub_class_plus.induct)
  case (1 cls)
  show ?case by simp
next
  case (2 cls c cs)
  show ?case
  proof (cases "cls c")
    case True
    have "filter (\<lambda>c. \<not> cls c) (dropWhile cls cs) = filter (\<lambda>c. \<not> cls c) cs"
      using filter_dropWhile_not [of "\<lambda>c. \<not> cls c" cs] by simp
    with True 2 show ?thesis by simp
  next
    case False
    with 2 show ?thesis by simp
  qed
qed

lemma re_sub_class_single: "re_sub_class cls [r] s = map (\<lambda>c. if cls c then r else c) s"
  unfolding re_sub_class_def by (induction s) auto

lemma sanitize_filename_policy: "sanitize_filename name = sanitize_policy name"
  by (simp add: sanitize_filename_def sanitize_policy_def py_def
      re_sub_class_single re_sub_class_plus_empty)

lemma allowed_not_separator: "allowed c \<Longrightarrow> \<not> path_separator c"
  by (auto simp: allowed_def path_separator_def)

text \<open>
  Claim C3. For every input string, \<open>sanitize_filename\<close> returns what the policy
  describes: each backslash or slash replaced by an underscore, then every code point
  outside the allow-set removed, then the first 200 code points kept. The result is at
  most 200 long and every code point of it is in the allow-set and is no path separator.
\<close>

theorem sanitize_filename_ok:
  "sanitize_filename name = sanitize_policy name \<and>
   length (sanitize_filename name) \<le> 200 \<and>
   (\<forall>c \<in> set (sanitize_filename name). allowed c \<and> \<not> path_separator c)"
proof (intro conjI ballI)
  show "sanitize_filename name = sanitize_policy name"
    by (rule sanitize_filename_policy)
  show "length (sanitize_filename name) \<le> 200"
    by (simp add: sanitize_filename_policy sanitize_policy_def)
next
  fix c assume "c \<in> set (sanitize_filename name)"
  then have "c \<in> set (filter allowed (map (\<lambda>c. if path_separator c then 95 else c) name))"
    unfolding sanitize_filename_policy sanitize_policy_def by (rule in_set_takeD)
  then show "allowed c" by simp
  then show "\<not> path_separator c" by (rule allowed_not_separator)
qed

text \<open>
  An input of 150 slashes, 150 dollar signs and 150 letters: the slashes become
  underscores, the dollar signs go, and the cut at 200 keeps 50 of the letters.
\<close>

theorem sanitize_filename_ok_witness:
  "sanitize_filename (replicate 150 47 @ replicate 150 36 @ replicate 150 97)
     = replicate 150 95 @ replicate 50 97 \<and>
   length (sanitize_filename (replicate 150 47 @ replicate 150 36 @ replicate 150 97)) = 200 \<and>
   95 \<in> set (sanitize_filename (replicate 150 47 @ replicate 150 36 @ replicate 150 97)) \<and>
   allowed 95 \<and> \<not> path_separator 95"
  using sanitize_filename_ok [of "replicate 150 47 @ replicate 150 36 @ replicate 150 97"]
  by (simp add: sanitize_policy_def allowed_def path_separator_def)

section \<open>The admin check\<close>

text \<open>
  Claim C5. \<open>is_admin\<close> depends on the configured \<open>OWNER_ID\<close> and the sender's id
  alone: it is false for every id when no \<open>OWNER_ID\<close> is configured, and otherwise true
  exactly for the id equal to the configured one.
\<close>

theorem is_admin_iff:
  "is_admin s uid = (case OWNER_ID s of None \<Rightarrow> False | Some owner \<Rightarrow> uid = owner)"
  by (auto simp: is_admin_def split: option.splits)

section \<open>Toggle and forward, step by step\<close>

lemma toggleforward_func_state:
  "snd (toggleforward_func e usr s) =
     s\<lparr>AUTO_FORWARD := \<not> AUTO_FORWARD s,
       calls := calls s @
         [ReplyText (py ''Auto-forward '' @
            (if \<not> AUTO_FORWARD s then 9989 # py '' ON'' else 10060 # py '' OFF'')) None]\<rparr>"
  by (simp add: toggleforward_func_def reply_text_def perform_def Let_def)

lemma toggleforward_state:
  "snd (toggleforward e usr s) =
     (if is_admin s (user_id usr) then snd (toggleforward_func e usr s)
      else s\<lparr>calls := calls s @ [ReplyText (10060 # py '' Admin only command.'') None]\<rparr>)"
  by (simp add: toggleforward_def admin_only_def reply_text_def perform_def)

lemma toggleforward_owner: "OWNER_ID (snd (toggleforward e usr s)) = OWNER_ID s"
  by (simp add: toggleforward_state toggleforward_func_state)

lemma toggleforward_flag:
  "AUTO_FORWARD (snd (toggleforward e usr s)) =
     (if is_admin s (user_id usr) then \<not> AUTO_FORWARD s else AUTO_FORWARD s)"
  by (simp add: toggleforward_state toggleforward_func_state)

lemma is_admin_after_toggleforward:
  "is_admin (snd (toggleforward e usr s)) uid = is_admin s uid"
  by (simp add: is_admin_def toggleforward_owner)

lemma toggles_owner: "OWNER_ID (toggles invs s) = OWNER_ID s"
  by (induction invs s rule: toggles.induct) (simp_all add: toggleforward_owner)

text \<open>
  The flag after a run: flipped once for each command of the run that the admin sent.
\<close>

lemma toggles_flag:
  "AUTO_FORWARD (toggles invs s) =
     (if even (length (filter (\<lambda>(e, usr). is_admin s (user_id usr)) invs))
      then AUTO_FORWARD s else \<not> AUTO_FORWARD s)"
proof (induction invs s rule: toggles.induct)
  case (1 s)
  show ?case by simp
next
  case (2 e usr rest s)
  have same: "filter (\<lambda>(e', u). is_admin (snd (toggleforward e usr s)) (user_id u)) rest =
      filter (\<lambda>(e', u). is_admin s (user_id u)) rest"
    by (simp add: is_admin_after_toggleforward)
  show ?case
    using 2 by (simp add: same toggleforward_flag)
qed

text \<open>Two toggles by one sender restore the flag, whoever the sender is.\<close>

lemma toggles_twice:
  "AUTO_FORWARD (toggles [(e1, usr), (e2, usr)] s) = AUTO_FORWARD s"
  by (simp add: toggleforward_flag is_admin_after_toggleforward)

text \<open>A run that changed the flag holds a command of the admin, whose id is configured.\<close>

lemma toggles_changed_owner:
  assumes "AUTO_FORWARD (toggles invs s) \<noteq> AUTO_FORWARD s"
  shows "\<exists>(e, usr) \<in> set invs. OWNER_ID s = Some (user_id usr)"
proof -
  have "filter (\<lambda>(e, usr). is_admin s (user_id usr)) invs \<noteq> []"
    using assms by (auto simp: toggles_flag split: if_splits)
  then obtain e usr where mem: "(e, usr) \<in> set invs" and adm: "is_admin s (user_id usr)"
    by (auto simp: filter_empty_conv)
  from adm have "OWNER_ID s = Some (user_id usr)"
    by (simp add: is_admin_def)
  with mem show ?thesis
    by (intro bexI [of _ "(e, usr)"]) simp_all
qed

lemma forward_skipped_append:
  "calls s' = calls s @ cs \<Longrightarrow> forward_skipped s s' = (filter is_forward cs = [])"
  by (simp add: forward_skipped_def)

lemma handle_photo_stored:
  assumes "photos \<noteq> []" and "get_file e (last photos) = Some file_id" and "download_ok e"
  shows "forward_skipped s (snd (handle_photo e usr photos s)) = (forward_target s = None)"
proof -
  obtain p ps where ph: "photos = p # ps"
    using assms(1) by (cases photos) auto
  have ft: "forward_target (s\<lparr>calls := cs, BOT_STATS_photos := n\<rparr>) = forward_target s" for cs n
    by (simp add: forward_target_def split: option.splits)
  show ?thesis
  proof (cases "forward_target s")
    case None
    then show ?thesis
      using assms(2,3) unfolding ph handle_photo_def
      by (simp add: forward_skipped_def perform_def and_then_def reply_text_def ft Let_def
          del: last.simps)
  next
    case (Some owner)
    then show ?thesis
      using assms(2,3) unfolding ph handle_photo_def
      by (simp add: forward_skipped_def perform_def and_then_def reply_text_def ft Let_def
          del: last.simps)
  qed
qed

lemma handle_document_stored:
  assumes "file_size doc = Some declared" and "declared \<le> MAX_FILE_SIZE"
    and "get_file e (doc_file_id doc) = Some file_id" and "download_ok e"
  shows "forward_skipped s (snd (handle_document e usr doc s)) = (forward_target s = None)"
proof -
  have ft: "forward_target (s\<lparr>calls := cs, BOT_STATS_documents := n\<rparr>) = forward_target s" for cs n
    by (simp add: forward_target_def split: option.splits)
  show ?thesis
  proof (cases "forward_target s")
    case None
    then show ?thesis
      using assms unfolding handle_document_def
      by (simp add: forward_skipped_def perform_def and_then_def reply_text_def ft Let_def)
  next
    case (Some owner)
    then show ?thesis
      using assms unfolding handle_document_def
      by (simp add: forward_skipped_def perform_def and_then_def reply_text_def ft Let_def)
  qed
qed

section \<open>Keyword replies\<close>

lemma keyword_loop_first_match:
  assumes "\<forall>(q, qs) \<in> set pre. re_search e q text = Some False"
    and "re_search e p text = Some True"
  shows "keyword_loop e text (pre @ (p, rs) # post) s =
     (case random_choice (random_draw e) rs of
        Inl err \<Rightarrow> (Some err, s)
      | Inr reply \<Rightarrow> reply_text e reply None s)"
  using assms by (induction pre) auto

lemma keyword_loop_no_match:
  "\<forall>(q, qs) \<in> set items. re_search e q text = Some False \<Longrightarrow>
   keyword_loop e text items s = (None, s)"
  by (induction items) auto

lemma random_choice_singleton: "random_choice draw [r] = Inr r"
  by (simp add: random_choice_def)

lemma random_choice_member: "random_choice draw rs = Inr r \<Longrightarrow> r \<in> set rs"
  by (auto simp: random_choice_def split: if_splits)

text \<open>
  Claim C1. The text is lower-cased once and the table is walked in its order. When
  the entries before \<open>(p, rs)\<close> do not match the lower-cased text and \<open>p\<close> does, the
  reply is drawn from \<open>rs\<close>, whatever entries follow (they may match too, or fail to
  compile: they are not looked at); a reply that is sent is a member of \<open>rs\<close>, and when
  \<open>rs\<close> is a singleton the reply is its one string.
\<close>

theorem keyword_reply_first_match:
  assumes "KEYWORDS s = pre @ (p, rs) # post"
    and "\<forall>(q, qs) \<in> set pre. re_search e q (str_lower e t) = Some False"
    and "re_search e p (str_lower e t) = Some True"
  shows "keyword_reply e (Some t) s =
       (case random_choice (random_draw e) rs of
          Inl err \<Rightarrow> (Some err, s)
        | Inr reply \<Rightarrow> reply_text e reply None s) \<and>
     (\<forall>reply. random_choice (random_draw e) rs = Inr reply \<longrightarrow> reply \<in> set rs) \<and>
     (\<forall>r. rs = [r] \<longrightarrow> keyword_reply e (Some t) s = reply_text e r None s)"
proof -
  have arg: "(case Some t of None \<Rightarrow> [] | Some t \<Rightarrow> if t = [] then [] else t) = t"
    by simp
  have run: "keyword_reply e (Some t) s =
       (case random_choice (random_draw e) rs of
          Inl err \<Rightarrow> (Some err, s)
        | Inr reply \<Rightarrow> reply_text e reply None s)"
    unfolding keyword_reply_def Let_def arg assms(1)
    by (rule keyword_loop_first_match [OF assms(2) assms(3)])
  show ?thesis
    using run by (auto simp: random_choice_singleton dest: random_choice_member)
qed

lemmas example_defs = example_env_def example_state_def example_user_def py_def
  ascii_lower_def

theorem keyword_reply_first_match_witness:
  "KEYWORDS example_state =
     [(py ''bye'', [py ''see you''])] @ (py ''hello'', [py ''hi!'']) # [(py ''h'', [py ''other''])] \<and>
   re_search example_env (py ''bye'') (str_lower example_env (py ''Hello there'')) = Some False \<and>
   re_search example_env (py ''hello'') (str_lower example_env (py ''Hello there'')) = Some True \<and>
   re_search example_env (py ''h'') (str_lower example_env (py ''Hello there'')) = Some True \<and>
   keyword_reply example_env (Some (py ''Hello there'')) example_state =
     (None, example_state\<lparr>calls := [ReplyText (py ''hi!'') None]\<rparr>)"
proof -
  have tab: "KEYWORDS example_state =
     [(py ''bye'', [py ''see you''])] @ (py ''hello'', [py ''hi!'']) # [(py ''h'', [py ''other''])]"
    by (simp add: example_state_def)
  have bye: "re_search example_env (py ''bye'') (str_lower example_env (py ''Hello there'')) = Some False"
    by (simp add: example_defs)
  have hello: "re_search example_env (py ''hello'') (str_lower example_env (py ''Hello there'')) = Some True"
    by (simp add: example_defs)
  have h: "re_search example_env (py ''h'') (str_lower example_env (py ''Hello there'')) = Some True"
    by (simp add: example_defs)
  have pre: "\<forall>(q, qs) \<in> set [(py ''bye'', [py ''see you''])].
      re_search example_env q (str_lower example_env (py ''Hello there'')) = Some False"
    using bye by simp
  have "keyword_reply example_env (Some (py ''Hello there'')) example_state =
      reply_text example_env (py ''hi!'') None example_state"
    using keyword_reply_first_match [OF tab pre hello] by (simp add: random_choice_singleton)
  then have "keyword_reply example_env (Some (py ''Hello there'')) example_state =
     (None, example_state\<lparr>calls := [ReplyText (py ''hi!'') None]\<rparr>)"
    by (simp add: reply_text_def perform_def example_env_def example_state_def)
  with tab bye hello h show ?thesis by simp
qed

section \<open>Unmatched text\<close>

lemma find_text_handler:
  "t \<noteq> [] \<Longrightarrow>
   find (\<lambda>(f, cb). check_update f (TextUpdate usr t)) handlers =
     Some (TextNotCommandFilter, CB_keyword_reply)"
  by (simp add: handlers_def)

lemma find_text_empty:
  "find (\<lambda>(f, cb). check_update f (TextUpdate usr [])) handlers = None"
  by (simp add: handlers_def)

text \<open>
  Claim C10. A text message that is no command and matches no pattern of the table (so
  every text message when the table is empty) leaves the state as it was: no gateway call
  is made, so nothing is sent. \<open>handle_message\<close>, the handler that would acknowledge
  it, is not among the registered handlers.
\<close>

theorem unmatched_text_no_reply:
  assumes "\<forall>(q, qs) \<in> set (KEYWORDS s). re_search e q (str_lower e t) = Some False"
  shows "process_update e (TextUpdate usr t) s = (None, s) \<and>
     CB_handle_message \<notin> snd ` set handlers"
proof
  show "process_update e (TextUpdate usr t) s = (None, s)"
  proof (cases "t = []")
    case True
    then show ?thesis by (simp add: process_update_def find_text_empty)
  next
    case False
    then show ?thesis
      using assms
      by (simp add: process_update_def find_text_handler keyword_reply_def
          keyword_loop_no_match)
  qed
  show "CB_handle_message \<notin> snd ` set handlers"
    by (simp add: handlers_def)
qed

theorem unmatched_text_no_reply_witness:
  "re_search example_env (py ''bye'') (str_lower example_env (py ''Good morning'')) = Some False \<and>
   re_search example_env (py ''hello'') (str_lower example_env (py ''Good morning'')) = Some False \<and>
   re_search example_env (py ''h'') (str_lower example_env (py ''Good morning'')) = Some False \<and>
   process_update example_env (TextUpdate example_user (py ''Good morning'')) example_state =
     (None, example_state) \<and>
   process_update example_env (TextUpdate example_user (py ''Good morning''))
     (example_state\<lparr>KEYWORDS := []\<rparr>) = (None, example_state\<lparr>KEYWORDS := []\<rparr>)"
proof -
  have none: "\<forall>(q, qs) \<in> set (KEYWORDS example_state).
      re_search example_env q (str_lower example_env (py ''Good morning'')) = Some False"
    by (simp add: example_defs)
  have empty: "\<forall>(q, qs) \<in> set (KEYWORDS (example_state\<lparr>KEYWORDS := []\<rparr>)).
      re_search example_env q (str_lower example_env (py ''Good morning'')) = Some False"
    by simp
  from none have each:
    "re_search example_env (py ''bye'') (str_lower example_env (py ''Good morning'')) = Some False"
    "re_search example_env (py ''hello'') (str_lower example_env (py ''Good morning'')) = Some False"
    "re_search example_env (py ''h'') (str_lower example_env (py ''Good morning'')) = Some False"
    by (simp_all add: example_state_def)
  show ?thesis
    using unmatched_text_no_reply [OF none, of example_user]
      unmatched_text_no_reply [OF empty, of example_user] each
    by simp
qed

section \<open>Oversized documents\<close>

text \<open>
  Claim C2. A document whose declared size is above \<open>MAX_FILE_SIZE\<close> (20 MiB) is
  answered with the rejection and nothing else happens: the one gateway call is the
  reply, so there is no \<open>get_file\<close>, no download and no forward, and the counters keep
  their values.
\<close>

theorem too_large_rejected:
  assumes "file_size doc = Some declared" and "declared > MAX_FILE_SIZE"
  shows "handle_document e usr doc s =
     (if reply_ok e then None else Some NetworkError,
      s\<lparr>calls := calls s @ [ReplyText (9888 # 65039 # py '' File too large.'') None]\<rparr>)"
  using assms by (simp add: handle_document_def reply_text_def perform_def)

theorem too_large_rejected_witness:
  "file_size example_big_document = Some 26214400 \<and> 26214400 > MAX_FILE_SIZE \<and>
   handle_document example_env example_user example_big_document example_state =
     (None, example_state
        \<lparr>calls := [ReplyText (9888 # 65039 # py '' File too large.'') None]\<rparr>) \<and>
   BOT_STATS_documents
     (snd (handle_document example_env example_user example_big_document example_state)) = 0"
proof -
  have sz: "file_size example_big_document = Some 26214400"
    by (simp add: example_big_document_def)
  have big: "26214400 > MAX_FILE_SIZE"
    by (simp add: MAX_FILE_SIZE_def)
  show ?thesis
    using sz big too_large_rejected [OF sz big, of example_env example_user example_state]
    by (simp add: example_env_def example_state_def)
qed

section \<open>Admin-only commands\<close>

text \<open>
  Claim C4. When the sender of \<open>toggleforward\<close> or \<open>getstats\<close> is not the admin, the
  command, also when it comes through the dispatcher, does one thing: it sends the
  admin-only reply. The function under the decorator is not run, so \<open>AUTO_FORWARD\<close> and
  the counters are as before and no statistics are sent.
\<close>

theorem admin_only_rejects:
  assumes "\<not> is_admin s (user_id usr)"
  shows "toggleforward e usr s =
       (if reply_ok e then None else Some NetworkError,
        s\<lparr>calls := calls s @ [ReplyText (10060 # py '' Admin only command.'') None]\<rparr>) \<and>
     getstats e usr s = toggleforward e usr s \<and>
     process_update e (CommandUpdate (py ''toggleforward'') usr) s = toggleforward e usr s \<and>
     process_update e (CommandUpdate (py ''getstats'') usr) s = getstats e usr s"
proof (intro conjI)
  show "toggleforward e usr s =
       (if reply_ok e then None else Some NetworkError,
        s\<lparr>calls := calls s @ [ReplyText (10060 # py '' Admin only command.'') None]\<rparr>)"
    using assms by (simp add: toggleforward_def admin_only_def reply_text_def perform_def)
  show "getstats e usr s = toggleforward e usr s"
    using assms by (simp add: toggleforward_def getstats_def admin_only_def)
  show "process_update e (CommandUpdate (py ''toggleforward'') usr) s = toggleforward e usr s"
    by (simp add: process_update_def handlers_def py_def)
  show "process_update e (CommandUpdate (py ''getstats'') usr) s = getstats e usr s"
    by (simp add: process_update_def handlers_def py_def)
qed

theorem admin_only_rejects_witness:
  "\<not> is_admin example_state (user_id example_user) \<and>
   process_update example_env (CommandUpdate (py ''toggleforward'') example_user) example_state =
     (None, example_state
        \<lparr>calls := [ReplyText (10060 # py '' Admin only command.'') None]\<rparr>) \<and>
   process_update example_env (CommandUpdate (py ''getstats'') example_user) example_state =
     (None, example_state
        \<lparr>calls := [ReplyText (10060 # py '' Admin only command.'') None]\<rparr>)"
proof -
  have no: "\<not> is_admin example_state (user_id example_user)"
    by (simp add: is_admin_def example_state_def example_user_def)
  show ?thesis
    using no admin_only_rejects [OF no, of example_env]
    by (simp add: example_env_def example_state_def)
qed

section \<open>Forwarding stored files\<close>

lemmas run_defs = perform_def and_then_def reply_text_def forward_target_def
  sanitize_filename_policy sanitize_policy_def py_def str_int_def str_nat.simps allowed_def
  path_separator_def example_env_def example_state_def example_user_def MAX_FILE_SIZE_def

text \<open>
  The scenario of the specification: with admin 42 and forwarding on, a document of
  1 MiB named \<open>report.pdf\<close> from sender 7 is stored as \<open>7_report.pdf\<close>, counted, and
  forwarded to chat 42 by its remote identifier with a caption naming sender 7.
\<close>

lemma document_scenario:
  "handle_document example_env example_user example_document example_state =
   (None, example_state\<lparr>BOT_STATS_documents := 1,
      calls := [GetFile (py ''BQAD''),
                DownloadToDrive FILES_DIR (py ''7_report.pdf''),
                SendDocument 42 (py ''BQAD'') (128196 # py '' File from 7''),
                ReplyText (128196 # py '' Saved '' @ [96] @ py ''7_report.pdf'' @ [96])
                  (Some (py ''Markdown''))]\<rparr>)"
  by (simp add: handle_document_def example_document_def run_defs)

text \<open>
  When the file is stored, the test passes and the forward call returns, the forward is
  the call right after the download: to the configured owner, with the remote identifier
  of the upload and a caption that ends in the sender's id.
\<close>

lemma handle_photo_forwards:
  assumes "photos \<noteq> []" and "get_file e (last photos) = Some file_id" and "download_ok e"
    and "forward_target s = Some owner"
  shows "SendPhoto owner (last photos) (128248 # py '' Photo from '' @ str_int (user_id usr))
     \<in> set (calls (snd (handle_photo e usr photos s)))"
proof -
  obtain p ps where ph: "photos = p # ps"
    using assms(1) by (cases photos) auto
  have ft: "forward_target (s\<lparr>calls := cs, BOT_STATS_photos := n\<rparr>) = forward_target s" for cs n
    by (simp add: forward_target_def split: option.splits)
  show ?thesis
    using assms(2,3,4) unfolding ph handle_photo_def
    by (simp add: perform_def and_then_def reply_text_def ft Let_def del: last.simps)
qed

lemma handle_document_forwards:
  assumes "file_size doc = Some declared" and "declared \<le> MAX_FILE_SIZE"
    and "get_file e (doc_file_id doc) = Some file_id" and "download_ok e"
    and "forward_target s = Some owner"
  shows "SendDocument owner (doc_file_id doc) (128196 # py '' File from '' @ str_int (user_id usr))
     \<in> set (calls (snd (handle_document e usr doc s)))"
proof -
  have ft: "forward_target (s\<lparr>calls := cs, BOT_STATS_documents := n\<rparr>) = forward_target s" for cs n
    by (simp add: forward_target_def split: option.splits)
  show ?thesis
    using assms unfolding handle_document_def
    by (simp add: perform_def and_then_def reply_text_def ft Let_def)
qed

text \<open>Each stored upload adds one to the counter of its category.\<close>

lemma handle_photo_counts:
  assumes "photos \<noteq> []" and "get_file e (last photos) = Some file_id" and "download_ok e"
  shows "BOT_STATS_photos (snd (handle_photo e usr photos s)) = BOT_STATS_photos s + 1"
proof -
  obtain p ps where ph: "photos = p # ps"
    using assms(1) by (cases photos) auto
  show ?thesis
    using assms(2,3) unfolding ph handle_photo_def
    by (simp add: perform_def and_then_def reply_text_def Let_def
        split: option.splits del: last.simps)
qed

lemma handle_document_counts:
  assumes "file_size doc = Some declared" and "declared \<le> MAX_FILE_SIZE"
    and "get_file e (doc_file_id doc) = Some file_id" and "download_ok e"
  shows "BOT_STATS_documents (snd (handle_document e usr doc s)) = BOT_STATS_documents s + 1"
  using assms unfolding handle_document_def
  by (simp add: perform_def and_then_def reply_text_def Let_def split: option.splits)

text \<open>
  Claim C6. With \<open>OWNER_ID = 0\<close> an admin identity is configured (\<open>is_admin\<close> accepts
  id 0) and \<open>AUTO_FORWARD\<close> is on, yet a stored photo and a stored document are not
  forwarded: the trace of each handler holds the download and the reply only.
\<close>

theorem zero_owner_never_forwarded:
  "is_admin zero_owner_state 0 \<and> AUTO_FORWARD zero_owner_state \<and>
   handle_photo example_env example_user [py ''small'', py ''AgAD''] zero_owner_state =
     (None, zero_owner_state\<lparr>BOT_STATS_photos := 1,
        calls := [GetFile (py ''AgAD''),
                  DownloadToDrive PHOTOS_DIR (py ''photo_7_AgAD.jpg''),
                  ReplyText (128248 # py '' Saved as '' @ [96] @ py ''photo_7_AgAD.jpg'' @ [96])
                    (Some (py ''Markdown''))]\<rparr>) \<and>
   handle_document example_env example_user example_document zero_owner_state =
     (None, zero_owner_state\<lparr>BOT_STATS_documents := 1,
        calls := [GetFile (py ''BQAD''),
                  DownloadToDrive FILES_DIR (py ''7_report.pdf''),
                  ReplyText (128196 # py '' Saved '' @ [96] @ py ''7_report.pdf'' @ [96])
                    (Some (py ''Markdown''))]\<rparr>)"
proof (intro conjI)
  show "is_admin zero_owner_state 0"
    by (simp add: is_admin_def zero_owner_state_def)
  show "AUTO_FORWARD zero_owner_state"
    by (simp add: zero_owner_state_def example_state_def)
  show "handle_photo example_env example_user [py ''small'', py ''AgAD''] zero_owner_state =
     (None, zero_owner_state\<lparr>BOT_STATS_photos := 1,
        calls := [GetFile (py ''AgAD''),
                  DownloadToDrive PHOTOS_DIR (py ''photo_7_AgAD.jpg''),
                  ReplyText (128248 # py '' Saved as '' @ [96] @ py ''photo_7_AgAD.jpg'' @ [96])
                    (Some (py ''Markdown''))]\<rparr>)"
    by (simp add: handle_photo_def zero_owner_state_def run_defs)
  show "handle_document example_env example_user example_document zero_owner_state =
     (None, zero_owner_state\<lparr>BOT_STATS_documents := 1,
        calls := [GetFile (py ''BQAD''),
                  DownloadToDrive FILES_DIR (py ''7_report.pdf''),
                  ReplyText (128196 # py '' Saved '' @ [96] @ py ''7_report.pdf'' @ [96])
                    (Some (py ''Markdown''))]\<rparr>)"
    by (simp add: handle_document_def example_document_def zero_owner_state_def run_defs)
qed

section \<open>Toggling auto-forward\<close>

text \<open>
  After a run of toggles that changed the flag, none of them sent by id 0, the forward
  of a stored photo or document is skipped if and only if the flag is then false: the
  run holds a command of the admin, so an admin identity other than 0 is configured.
\<close>

lemma forward_target_after_toggles:
  assumes "AUTO_FORWARD (toggles invs s) \<noteq> AUTO_FORWARD s"
    and "\<forall>(e, usr) \<in> set invs. user_id usr \<noteq> 0"
  shows "(forward_target (toggles invs s) = None) = (\<not> AUTO_FORWARD (toggles invs s))"
proof -
  obtain e usr where "(e, usr) \<in> set invs" and own: "OWNER_ID s = Some (user_id usr)"
    using toggles_changed_owner [OF assms(1)] by auto
  with assms(2) have "user_id usr \<noteq> 0" by auto
  with own show ?thesis
    by (simp add: forward_target_def toggles_owner)
qed

lemma photo_skipped_after_toggles:
  assumes "AUTO_FORWARD (toggles invs s) \<noteq> AUTO_FORWARD s"
    and "\<forall>(e, usr) \<in> set invs. user_id usr \<noteq> 0"
    and "photos \<noteq> []" and "get_file e (last photos) = Some file_id" and "download_ok e"
  shows "forward_skipped (toggles invs s) (snd (handle_photo e usr photos (toggles invs s))) =
     (\<not> AUTO_FORWARD (toggles invs s))"
  using handle_photo_stored [OF assms(3,4,5)] forward_target_after_toggles [OF assms(1,2)]
  by simp

lemma document_skipped_after_toggles:
  assumes "AUTO_FORWARD (toggles invs s) \<noteq> AUTO_FORWARD s"
    and "\<forall>(e, usr) \<in> set invs. user_id usr \<noteq> 0"
    and "file_size doc = Some declared" and "declared \<le> MAX_FILE_SIZE"
    and "get_file e (doc_file_id doc) = Some file_id" and "download_ok e"
  shows "forward_skipped (toggles invs s) (snd (handle_document e usr doc (toggles invs s))) =
     (\<not> AUTO_FORWARD (toggles invs s))"
  using handle_document_stored [OF assms(3,4,5,6)] forward_target_after_toggles [OF assms(1,2)]
  by simp

text \<open>
  Claim C7. With \<open>OWNER_ID = 0\<close> and the flag off, the admin (id 0) sends
  \<open>toggleforward\<close> once: the dispatcher runs the command, the flag is on and the reply
  says so. A photo that is then stored and counted is still not forwarded: after one
  toggle the forward is skipped although the flag is true.
\<close>

theorem toggle_on_zero_owner_not_forwarded:
  "is_admin zero_owner_off_state (user_id example_zero_admin) \<and>
   \<not> AUTO_FORWARD zero_owner_off_state \<and>
   process_update example_env (CommandUpdate (py ''toggleforward'') example_zero_admin)
       zero_owner_off_state =
     (None, zero_owner_state
        \<lparr>calls := [ReplyText (py ''Auto-forward '' @ 9989 # py '' ON'') None]\<rparr>) \<and>
   toggles [(example_env, example_zero_admin)] zero_owner_off_state =
     zero_owner_state\<lparr>calls := [ReplyText (py ''Auto-forward '' @ 9989 # py '' ON'') None]\<rparr> \<and>
   AUTO_FORWARD (toggles [(example_env, example_zero_admin)] zero_owner_off_state) \<and>
   handle_photo example_env example_user [py ''AgAD'']
       (toggles [(example_env, example_zero_admin)] zero_owner_off_state) =
     (None, zero_owner_state\<lparr>BOT_STATS_photos := 1,
        calls := [ReplyText (py ''Auto-forward '' @ 9989 # py '' ON'') None,
                  GetFile (py ''AgAD''),
                  DownloadToDrive PHOTOS_DIR (py ''photo_7_AgAD.jpg''),
                  ReplyText (128248 # py '' Saved as '' @ [96] @ py ''photo_7_AgAD.jpg'' @ [96])
                    (Some (py ''Markdown''))]\<rparr>) \<and>
   forward_skipped (toggles [(example_env, example_zero_admin)] zero_owner_off_state)
     (snd (handle_photo example_env example_user [py ''AgAD'']
        (toggles [(example_env, example_zero_admin)] zero_owner_off_state)))"
proof -
  have adm: "is_admin zero_owner_off_state (user_id example_zero_admin)"
    by (simp add: is_admin_def zero_owner_off_state_def example_zero_admin_def)
  have off: "\<not> AUTO_FORWARD zero_owner_off_state"
    by (simp add: zero_owner_off_state_def)
  have cmd: "toggleforward example_env example_zero_admin zero_owner_off_state =
     (None, zero_owner_state
        \<lparr>calls := [ReplyText (py ''Auto-forward '' @ 9989 # py '' ON'') None]\<rparr>)"
    using adm
    by (simp add: toggleforward_def admin_only_def toggleforward_func_def reply_text_def
        perform_def Let_def zero_owner_off_state_def zero_owner_state_def example_state_def
        example_env_def)
  have disp: "process_update example_env (CommandUpdate (py ''toggleforward'') example_zero_admin)
       zero_owner_off_state = toggleforward example_env example_zero_admin zero_owner_off_state"
    by (simp add: process_update_def handlers_def py_def)
  have run: "toggles [(example_env, example_zero_admin)] zero_owner_off_state =
     zero_owner_state\<lparr>calls := [ReplyText (py ''Auto-forward '' @ 9989 # py '' ON'') None]\<rparr>"
    by (simp add: cmd)
  have flag: "AUTO_FORWARD (toggles [(example_env, example_zero_admin)] zero_owner_off_state)"
    unfolding run by (simp add: zero_owner_state_def example_state_def)
  have photo: "handle_photo example_env example_user [py ''AgAD'']
       (toggles [(example_env, example_zero_admin)] zero_owner_off_state) =
     (None, zero_owner_state\<lparr>BOT_STATS_photos := 1,
        calls := [ReplyText (py ''Auto-forward '' @ 9989 # py '' ON'') None,
                  GetFile (py ''AgAD''),
                  DownloadToDrive PHOTOS_DIR (py ''photo_7_AgAD.jpg''),
                  ReplyText (128248 # py '' Saved as '' @ [96] @ py ''photo_7_AgAD.jpg'' @ [96])
                    (Some (py ''Markdown''))]\<rparr>)"
    unfolding run by (simp add: handle_photo_def zero_owner_state_def run_defs)
  have skip: "forward_skipped (toggles [(example_env, example_zero_admin)] zero_owner_off_state)
     (snd (handle_photo example_env example_user [py ''AgAD'']
        (toggles [(example_env, example_zero_admin)] zero_owner_off_state)))"
    unfolding photo unfolding run by (simp add: forward_skipped_def)
  from adm off cmd disp run flag photo skip show ?thesis by simp
qed

end
